theory Spec2Isabelle
  imports Complex_Main
begin

section \<open>Numbers, rounding and failures\<close>

text \<open>
  The calculator of \<^verbatim>\<open>src/Ladder_main.py\<close> (class \<^verbatim>\<open>LadderCalculator\<close>) works on Python
  numbers. They are embedded as \<^typ>\<open>real\<close> (lengths, angles) and \<^typ>\<open>int\<close> (step counts);
  \<^verbatim>\<open>+\<close>, \<^verbatim>\<open>-\<close>, \<^verbatim>\<open>*\<close> and \<^verbatim>\<open>/\<close> are the exact operations, and a division whose divisor can
  be zero is written with \<open>py_div\<close>, which raises as Python does. Where a property turns
  on the rounding of the machine's arithmetic, the operations are taken in double
  precision (\<open>double_round\<close>, \<open>float_div\<close>, \<open>float_mul\<close> below). The functions of the
  \<^verbatim>\<open>math\<close> module (\<^verbatim>\<open>atan\<close>, \<^verbatim>\<open>degrees\<close>, \<^verbatim>\<open>cos\<close>, \<^verbatim>\<open>radians\<close>, \<^verbatim>\<open>sqrt\<close>) are not part of the
  repository; they are a parameter of the model (record \<open>mathlib\<close>).
\<close>

datatype py_error = ZeroDivisionError

definition py_div :: "real \<Rightarrow> real \<Rightarrow> py_error + real" where
  "py_div a b = (if b = 0 then Inl ZeroDivisionError else Inr (a / b))"

text \<open>\<^verbatim>\<open>round(x)\<close>: the nearest integer, a tie going to the even neighbour.\<close>

definition py_round :: "real \<Rightarrow> int" where
  "py_round x =
     (let f = \<lfloor>x\<rfloor>; d = x - of_int f
      in if d < 1 / 2 then f
         else if 1 / 2 < d then f + 1
         else if even f then f else f + 1)"

text \<open>\<^verbatim>\<open>round(x, 2)\<close>: the same rounding at the second decimal.\<close>

definition round2 :: "real \<Rightarrow> real" where
  "round2 x = of_int (py_round (x * 100)) / 100"

record mathlib =
  m_atan :: "real \<Rightarrow> real"
  m_degrees :: "real \<Rightarrow> real"
  m_cos :: "real \<Rightarrow> real"
  m_radians :: "real \<Rightarrow> real"
  m_sqrt :: "real \<Rightarrow> real"

text \<open>The library over the real numbers, used to run the model on concrete inputs.\<close>

definition exact_math :: mathlib where
  "exact_math =
     \<lparr> m_atan = arctan, m_degrees = (\<lambda>r. r * 180 / pi), m_cos = cos,
       m_radians = (\<lambda>d. d * pi / 180), m_sqrt = sqrt \<rparr>"

section \<open>Double precision\<close>

text \<open>
  Python's \<^verbatim>\<open>float\<close> is the IEEE 754 binary64 format: a result of \<^verbatim>\<open>/\<close> or \<^verbatim>\<open>*\<close> is the
  exact result rounded to the nearest number with a 53-bit significand, a tie going to
  the even significand. \<open>double_round\<close> is that rounding for numbers in the normal range
  (the magnitudes of this calculator neither overflow nor reach the subnormal numbers):
  with \<open>e\<close> the binary exponent of \<open>x\<close>, the spacing of the doubles around \<open>x\<close> is
  \<open>2 powr (e - 52)\<close>.
\<close>

definition double_round :: "real \<Rightarrow> real" where
  "double_round x =
     (if x = 0 then 0
      else let e = \<lfloor>log 2 \<bar>x\<bar>\<rfloor>; u = 2 powr (of_int e - 52)
           in of_int (py_round (x / u)) * u)"


definition float_mul :: "real \<Rightarrow> real \<Rightarrow> real" where
  "float_mul a b = double_round (a * b)"

text \<open>
  The math library in double precision, as far as it is used on concrete inputs below.
  \<^verbatim>\<open>math.radians(d)\<close> is the product of \<^verbatim>\<open>d\<close> and the double nearest to pi / 180, which is
  5030569068109113 / 2^58. At the double nearest to pi / 2, which is
  7074237752028440 / 2^52 and is what \<^verbatim>\<open>math.radians(90)\<close> returns, \<^verbatim>\<open>math.cos\<close> returns the
  double 4967757600021511 / 2^106, about 6.1e-17 (the cosine of that double is not 0,
  since the double is not pi / 2); at other arguments, and for the other functions, the
  correctly rounded value stands for the library's.
\<close>

definition double_math :: mathlib where
  "double_math =
     \<lparr> m_atan = (\<lambda>x. double_round (arctan x)),
       m_degrees = (\<lambda>r. float_mul r (double_round (180 / pi))),
       m_cos = (\<lambda>x. if x = 7074237752028440 / 2 ^ 52 then 4967757600021511 / 2 ^ 106
                      else double_round (cos x)),
       m_radians = (\<lambda>d. float_mul d (5030569068109113 / 2 ^ 58)),
       m_sqrt = (\<lambda>x. double_round (sqrt x)) \<rparr>"

section \<open>The calculator's configuration\<close>

text \<open>The attributes set by \<^verbatim>\<open>LadderCalculator.__init__\<close>.\<close>

definition min_angle :: real where "min_angle = 30"
definition max_angle :: real where "max_angle = 45"
definition standard_step_width :: real where "standard_step_width = 30"
definition standard_step_height :: real where "standard_step_height = 20"
definition min_step_width :: real where "min_step_width = 25"
definition min_step_height :: real where "min_step_height = 15"
definition max_step_height :: real where "max_step_height = 25"
definition min_ladder_width :: real where "min_ladder_width = 80"

section \<open>Messages\<close>

text \<open>
  The source's messages are Russian string literals; each literal is one constructor
  here, and a formatted message carries the numbers it prints.
\<close>

datatype message =
    AngleManual                \<comment> \<open>calculate_angle: angle given by the caller\<close>
  | AngleLengthZero            \<comment> \<open>calculate_angle: length is 0\<close>
  | AngleComputed              \<comment> \<open>calculate_angle: angle computed\<close>
  | StepsStandard              \<comment> \<open>calculate_steps, mode 1\<close>
  | StepsHeightGiven           \<comment> \<open>calculate_steps, mode 2\<close>
  | StepsWidthGivenStandard    \<comment> \<open>calculate_steps, mode 3, standard riser in range\<close>
  | StepsWidthGiven            \<comment> \<open>calculate_steps, mode 3, otherwise\<close>
  | StepsBothGiven             \<comment> \<open>calculate_steps, mode 4\<close>
  | ErrHeightNotPositive       \<comment> \<open>mode 2: step_height <= 0\<close>
  | ErrHeightRange real real   \<comment> \<open>modes 2 and 4: step_height outside the bounds printed\<close>
  | ErrWidthNotPositive        \<comment> \<open>mode 3: step_width <= 0\<close>
  | ErrWidthMin real           \<comment> \<open>modes 3 and 4: step_width below the bound printed\<close>
  | ErrParamsNotPositive       \<comment> \<open>mode 4: step_height <= 0 or step_width <= 0\<close>
  | LengthByAngle              \<comment> \<open>calculate_length: by the angle\<close>
  | LengthBadAngle             \<comment> \<open>calculate_length: the division by the cosine raised\<close>
  | LengthPythagoras           \<comment> \<open>calculate_length: by Pythagoras\<close>
  | LengthBadParams            \<comment> \<open>calculate_length: the square root raised\<close>
  | SuggestInitial             \<comment> \<open>suggest_optimal_parameters: initial message\<close>
  | SuggestStandardFound       \<comment> \<open>standard option found\<close>
  | SuggestBestFound           \<comment> \<open>best option found\<close>
  | SuggestMinimum             \<comment> \<open>minimum option\<close>

section \<open>Step resolution\<close>

text \<open>
  \<^verbatim>\<open>calculate_steps(height, length, step_height=None, step_width=None)\<close> returns the tuple
  \<^verbatim>\<open>(steps, message, actual_height, actual_width)\<close>, with \<^verbatim>\<open>None\<close> for the three values when
  it reports an error. In mode 1 the quotient \<^verbatim>\<open>height / steps\<close> raises when the rounded
  count is 0.
\<close>

type_synonym steps_result = "int option \<times> message \<times> real option \<times> real option"

fun calculate_steps :: "real \<Rightarrow> real \<Rightarrow> real option \<Rightarrow> real option \<Rightarrow> py_error + steps_result" where
  "calculate_steps height len None None =
     (let default_height = standard_step_height;
          default_height =
            (if \<not> (min_step_height \<le> default_height \<and> default_height \<le> max_step_height)
             then max min_step_height (min max_step_height default_height)
             else default_height);
          steps = py_round (height / default_height)
      in case py_div height (of_int steps) of
           Inl e \<Rightarrow> Inl e
         | Inr actual_height \<Rightarrow>
             Inr (Some steps, StepsStandard, Some actual_height, Some standard_step_width))"
| "calculate_steps height len (Some step_height) None =
     (if step_height \<le> 0 then Inr (None, ErrHeightNotPositive, None, None)
      else if step_height < min_step_height \<or> step_height > max_step_height
        then Inr (None, ErrHeightRange min_step_height max_step_height, None, None)
      else let steps = height / step_height;
               actual_width = standard_step_width
           in Inr (Some (py_round steps), StepsHeightGiven, Some step_height, Some actual_width))"
| "calculate_steps height len None (Some step_width) =
     (if step_width \<le> 0 then Inr (None, ErrWidthNotPositive, None, None)
      else if step_width < min_step_width
        then Inr (None, ErrWidthMin min_step_width, None, None)
      else let standard_height = standard_step_height
           in if min_step_height \<le> standard_height \<and> standard_height \<le> max_step_height
              then let steps = height / standard_height
                   in Inr (Some (py_round steps), StepsWidthGivenStandard,
                           Some standard_height, Some step_width)
              else let steps = height / standard_height
                   in Inr (Some (py_round steps), StepsWidthGiven,
                           Some standard_height, Some step_width))"
| "calculate_steps height len (Some step_height) (Some step_width) =
     (if step_height \<le> 0 \<or> step_width \<le> 0 then Inr (None, ErrParamsNotPositive, None, None)
      else if step_height < min_step_height \<or> step_height > max_step_height
        then Inr (None, ErrHeightRange min_step_height max_step_height, None, None)
      else if step_width < min_step_width
        then Inr (None, ErrWidthMin min_step_width, None, None)
      else let steps = height / step_height
           in Inr (Some (py_round steps), StepsBothGiven, Some step_height, Some step_width))"

section \<open>Angle and stringer length\<close>




text \<open>
  \<^verbatim>\<open>calculate_length\<close>: with an angle, the division \<^verbatim>\<open>length / math.cos(math.radians(angle))\<close>
  sits in a \<^verbatim>\<open>try\<close> whose bare \<^verbatim>\<open>except\<close> turns the exception into \<^verbatim>\<open>(None, message)\<close>.
\<close>

definition calculate_length :: "mathlib \<Rightarrow> real \<Rightarrow> real \<Rightarrow> real option \<Rightarrow> real option \<times> message" where
  "calculate_length M height len angle =
     (case angle of
        Some a \<Rightarrow>
          (case py_div len (m_cos M (m_radians M a)) of
             Inl e \<Rightarrow> (None, LengthBadAngle)
           | Inr length_ladder \<Rightarrow> (Some (round2 length_ladder), LengthByAngle))
      | None \<Rightarrow>
          let length_ladder = m_sqrt M (height ^ 2 + len ^ 2)
          in (Some (round2 length_ladder), LengthPythagoras))"

section \<open>Parts\<close>



section \<open>Input validation\<close>

text \<open>
  \<^verbatim>\<open>validate_inputs\<close> collects its messages in a list and returns them joined by \<^verbatim>\<open>"; "\<close>,
  the empty string when there is none. The model returns the list; the caller's test
  \<^verbatim>\<open>if validation_error\<close> is that the list is not empty.
\<close>

datatype validation_error =
    HeightNotPositive | LengthNotPositive | HeightTooLarge | LengthTooLarge
  | WidthTooSmall real

definition validate_inputs :: "real \<Rightarrow> real \<Rightarrow> real option \<Rightarrow> validation_error list" where
  "validate_inputs height len width =
     (let errors = [];
          errors = (if height \<le> 0 then errors @ [HeightNotPositive] else errors);
          errors = (if len \<le> 0 then errors @ [LengthNotPositive] else errors);
          errors = (if height > 500 then errors @ [HeightTooLarge] else errors);
          errors = (if len > 1000 then errors @ [LengthTooLarge] else errors);
          errors = (case width of
                      None \<Rightarrow> errors
                    | Some w \<Rightarrow>
                        if w < min_ladder_width then errors @ [WidthTooSmall min_ladder_width]
                        else errors)
      in errors)"

section \<open>Feasibility\<close>

datatype issue =
    IssueNoSteps                 \<comment> \<open>steps is None or 0\<close>
  | IssueNoStepParameters        \<comment> \<open>step_width or step_height is None or not positive\<close>
  | IssueAngleUndefined
  | IssueAngleRange real         \<comment> \<open>the angle, outside the allowed range\<close>
  | IssueRiserLow real
  | IssueRiserHigh real
  | IssueTreadNarrow real
  | IssueTooFewSteps
  | IssueTooManySteps
  | IssueOpeningWidth real       \<comment> \<open>the opening width, below the minimum\<close>
  | IssueProjection real real    \<comment> \<open>the projection required and the length available\<close>

datatype warning = WarnRiserLow | WarnRiserHigh | WarnTreadNarrow | WarnTreadWide

record feasibility =
  possible :: bool
  issues :: "issue list"
  warnings :: "warning list"

definition add_issue :: "issue \<Rightarrow> feasibility \<Rightarrow> feasibility" where
  "add_issue i f = f\<lparr>possible := False, issues := issues f @ [i]\<rparr>"

definition add_warning :: "warning \<Rightarrow> feasibility \<Rightarrow> feasibility" where
  "add_warning w f = f\<lparr>warnings := warnings f @ [w]\<rparr>"

text \<open>
  The checks of \<^verbatim>\<open>check_installation_feasibility\<close> after its two early returns, in the
  source's order; each one updates the report built so far.
\<close>

definition feasibility_checks ::
  "real \<Rightarrow> real option \<Rightarrow> real option \<Rightarrow> int \<Rightarrow> real \<Rightarrow> real \<Rightarrow> real \<Rightarrow> feasibility \<Rightarrow> feasibility" where
  "feasibility_checks len width angle steps step_width step_height horizontal_projection f0 =
     (let f = (case angle of
                 None \<Rightarrow> add_issue IssueAngleUndefined f0
               | Some a \<Rightarrow>
                   if \<not> (min_angle \<le> a \<and> a \<le> max_angle) then add_issue (IssueAngleRange a) f0
                   else f0);
          f = (if step_height < min_step_height then add_issue (IssueRiserLow step_height) f
               else if step_height > max_step_height then add_issue (IssueRiserHigh step_height) f
               else f);
          f = (if step_width < min_step_width then add_issue (IssueTreadNarrow step_width) f else f);
          f = (if steps < 3 then add_issue IssueTooFewSteps f else f);
          f = (if steps > 25 then add_issue IssueTooManySteps f else f);
          f = (case width of
                 None \<Rightarrow> f
               | Some w \<Rightarrow> if w < min_ladder_width then add_issue (IssueOpeningWidth w) f else f);
          f = (if horizontal_projection > len
               then add_issue (IssueProjection horizontal_projection len) f else f);
          f = (if step_height < 17 then add_warning WarnRiserLow f
               else if step_height > 23 then add_warning WarnRiserHigh f
               else f);
          f = (if step_width < 28 then add_warning WarnTreadNarrow f
               else if step_width > 35 then add_warning WarnTreadWide f
               else f)
      in f)"

definition check_installation_feasibility ::
  "real \<Rightarrow> real \<Rightarrow> real option \<Rightarrow> real option \<Rightarrow> int option \<Rightarrow> real option \<Rightarrow> real option
     \<Rightarrow> real \<Rightarrow> feasibility" where
  "check_installation_feasibility height len width angle steps step_width step_height
       horizontal_projection =
     (let feasibility = \<lparr> possible = True, issues = [], warnings = [] \<rparr>
      in case steps of
           None \<Rightarrow> add_issue IssueNoSteps feasibility
         | Some st \<Rightarrow>
             if st = 0 then add_issue IssueNoSteps feasibility
             else (case (step_width, step_height) of
                     (Some sw, Some sh) \<Rightarrow>
                       if sw \<le> 0 \<or> sh \<le> 0 then add_issue IssueNoStepParameters feasibility
                       else feasibility_checks len width angle st sw sh
                              horizontal_projection feasibility
                   | _ \<Rightarrow> add_issue IssueNoStepParameters feasibility))"

section \<open>Footprint\<close>

datatype layout_description = DescStraight | DescUShaped | DescLShaped | DescStraightDefault

text \<open>
  \<^verbatim>\<open>calculate_ladder_footprint\<close> returns either a dictionary holding only an error message
  or one with the projection, the width required and a description.
\<close>

datatype footprint =
    FootprintError
  | Footprint real real layout_description

text \<open>\<^verbatim>\<open>footprint.get("horizontal_projection", 0)\<close>\<close>

fun get_horizontal_projection :: "footprint \<Rightarrow> real" where
  "get_horizontal_projection FootprintError = 0"
| "get_horizontal_projection (Footprint p w d) = p"

definition calculate_ladder_footprint :: "int \<Rightarrow> real \<Rightarrow> int \<Rightarrow> footprint" where
  "calculate_ladder_footprint steps step_width ladder_type =
     (if steps \<le> 0 \<or> step_width \<le> 0 then FootprintError
      else if ladder_type = 1
        then Footprint (round2 (of_int (steps - 1) * step_width)) 80 DescStraight
      else if ladder_type = 2
        then let section_steps = max 1 (steps div 2)
             in Footprint (round2 (2 * (of_int (section_steps - 1) * step_width) + 100)) 120
                  DescUShaped
      else if ladder_type = 3
        then Footprint (round2 (of_int (steps - 1) * step_width + 80)) 100 DescLShaped
      else Footprint (round2 (of_int (steps - 1) * step_width)) 80 DescStraightDefault)"

section \<open>Suggestions\<close>

record option_params =
  opt_steps :: int
  opt_height :: real
  opt_width :: real
  opt_projection :: real

text \<open>
  The suggestion dictionary: the keys \<^verbatim>\<open>standard_option\<close>, \<^verbatim>\<open>best_option\<close> and
  \<^verbatim>\<open>minimum_option\<close> are present or absent. The standard option's constant entries
  \<^verbatim>\<open>note\<close> and \<^verbatim>\<open>will_fit = True\<close> are left out.
\<close>

record suggestions =
  sg_message :: message
  standard_option :: "option_params option"
  best_option :: "option_params option"
  minimum_option :: "option_params option"

text \<open>
  The test \<^verbatim>\<open>"\<dots>" not in suggestions["message"]\<close> looks for the stem of the word
  "standard" in the message: the initial message and the one set with the standard option
  contain it, the other two do not.
\<close>

fun mentions_standard :: "message \<Rightarrow> bool" where
  "mentions_standard SuggestInitial = True"
| "mentions_standard SuggestStandardFound = True"
| "mentions_standard _ = False"

text \<open>One iteration of the loop \<^verbatim>\<open>for steps in range(3, 26)\<close> on \<^verbatim>\<open>(max_steps, best_params)\<close>.\<close>

definition search_step ::
  "real \<Rightarrow> real \<Rightarrow> int \<Rightarrow> int \<times> option_params option \<Rightarrow> int \<times> option_params option" where
  "search_step height available_length steps st =
     (let (max_steps, best_params) = st;
          step_height = height / of_int steps
      in if min_step_height \<le> step_height \<and> step_height \<le> max_step_height
         then let step_width = standard_step_width;
                  horizontal_projection = of_int (steps - 1) * step_width
              in if horizontal_projection \<le> available_length
                 then if steps > max_steps
                      then (steps,
                            Some \<lparr> opt_steps = steps, opt_height = round2 step_height,
                                   opt_width = step_width,
                                   opt_projection = round2 horizontal_projection \<rparr>)
                      else (max_steps, best_params)
                 else (max_steps, best_params)
         else (max_steps, best_params))"

text \<open>The whole loop, started from \<^verbatim>\<open>max_steps = 0\<close> and \<^verbatim>\<open>best_params = None\<close>.\<close>

definition search_best :: "real \<Rightarrow> real \<Rightarrow> int \<times> option_params option" where
  "search_best height available_length =
     fold (search_step height available_length) [3..25] (0, None)"

definition suggest_optimal_parameters ::
  "real \<Rightarrow> real \<Rightarrow> real option \<Rightarrow> py_error + suggestions" where
  "suggest_optimal_parameters height available_length available_width =
     (let suggestions = \<lparr> sg_message = SuggestInitial, standard_option = None,
                           best_option = None, minimum_option = None \<rparr>;
          std_steps = py_round (height / standard_step_height)
      in case py_div height (of_int std_steps) of
           Inl e \<Rightarrow> Inl e
         | Inr std_actual_height \<Rightarrow>
             let std_width = standard_step_width;
                 std_projection = of_int (std_steps - 1) * std_width;
                 suggestions =
                   (if std_projection \<le> available_length
                       \<and> min_step_height \<le> std_actual_height
                       \<and> std_actual_height \<le> max_step_height
                    then suggestions
                           \<lparr> standard_option :=
                               Some \<lparr> opt_steps = std_steps,
                                      opt_height = round2 std_actual_height,
                                      opt_width = std_width,
                                      opt_projection = round2 std_projection \<rparr>,
                             sg_message := SuggestStandardFound \<rparr>
                    else suggestions);
                 (max_steps, best_params) = search_best height available_length;
                 suggestions =
                   (if best_params \<noteq> None
                       \<and> (max_steps \<noteq> std_steps \<or> standard_option suggestions = None)
                    then let suggestions = suggestions\<lparr>best_option := best_params\<rparr>
                         in if \<not> mentions_standard (sg_message suggestions)
                            then suggestions\<lparr>sg_message := SuggestBestFound\<rparr>
                            else suggestions
                    else suggestions);
                 suggestions =
                   (if standard_option suggestions = None \<and> best_option suggestions = None
                    then let min_steps = max 3 (py_round (height / max_step_height));
                             min_height = height / of_int min_steps;
                             min_width = standard_step_width;
                             min_projection = of_int (min_steps - 1) * min_width
                         in suggestions
                              \<lparr> minimum_option :=
                                  Some \<lparr> opt_steps = min_steps,
                                         opt_height = round2 min_height,
                                         opt_width = min_width,
                                         opt_projection = round2 min_projection \<rparr>,
                                sg_message := SuggestMinimum \<rparr>
                    else suggestions)
             in Inr suggestions)"

text \<open>
  The candidates of the search as the specification words them: a step count in [3, 25]
  whose riser height / count lies in [15, 25] and whose projection (count - 1) * 30 fits
  the available length.
\<close>

definition spec_candidate :: "real \<Rightarrow> real \<Rightarrow> int \<Rightarrow> bool" where
  "spec_candidate height available_length c \<longleftrightarrow>
     3 \<le> c \<and> c \<le> 25 \<and> 15 \<le> height / of_int c \<and> height / of_int c \<le> 25
     \<and> of_int (c - 1) * 30 \<le> available_length"

section \<open>The orchestrator\<close>












section \<open>Facts about rounding\<close>

lemmas config_defs =
  min_angle_def max_angle_def standard_step_width_def standard_step_height_def
  min_step_width_def min_step_height_def max_step_height_def min_ladder_width_def

lemma py_round_cases: "py_round x = \<lfloor>x\<rfloor> \<or> py_round x = \<lfloor>x\<rfloor> + 1"
  by (simp add: py_round_def Let_def)

lemma py_round_bounds:
  "x - 1 / 2 \<le> of_int (py_round x)" "of_int (py_round x) \<le> x + 1 / 2"
  unfolding py_round_def Let_def by (auto simp: not_less) linarith+

lemma py_round_mono:
  assumes "x \<le> y"
  shows "py_round x \<le> py_round y"
proof (cases "\<lfloor>x\<rfloor> < \<lfloor>y\<rfloor>")
  case True
  have "py_round x \<le> \<lfloor>x\<rfloor> + 1"
    using py_round_cases [of x] by auto
  moreover have "\<lfloor>y\<rfloor> \<le> py_round y"
    using py_round_cases [of y] by auto
  ultimately show ?thesis
    using True by linarith
next
  case False
  with assms have same: "\<lfloor>x\<rfloor> = \<lfloor>y\<rfloor>"
    using floor_mono [of x y] by linarith
  then have "x - of_int \<lfloor>x\<rfloor> \<le> y - of_int \<lfloor>y\<rfloor>"
    using assms by simp
  then show ?thesis
    using same by (auto simp: py_round_def Let_def)
qed

lemma py_round_zero_iff: "py_round x = 0 \<longleftrightarrow> - 1 / 2 \<le> x \<and> x \<le> 1 / 2"
proof
  assume "py_round x = 0"
  then show "- 1 / 2 \<le> x \<and> x \<le> 1 / 2"
    using py_round_bounds [of x] by simp
next
  assume range: "- 1 / 2 \<le> x \<and> x \<le> 1 / 2"
  then have "\<lfloor>x\<rfloor> = 0 \<or> \<lfloor>x\<rfloor> = - 1"
    by linarith
  then show "py_round x = 0"
  proof
    assume "\<lfloor>x\<rfloor> = 0"
    then show ?thesis
      using range by (auto simp: py_round_def Let_def)
  next
    assume below: "\<lfloor>x\<rfloor> = - 1"
    then have "x < 0"
      by linarith
    then show ?thesis
      using range below by (auto simp: py_round_def Let_def)
  qed
qed


lemma py_round_nonneg: "0 \<le> x \<Longrightarrow> 0 \<le> py_round x"
  using py_round_bounds(1) [of x] by linarith

lemma round2_mono: "x \<le> y \<Longrightarrow> round2 x \<le> round2 y"
  by (simp add: round2_def py_round_mono divide_right_mono)


lemma py_round_three_halves: "py_round (3 / 2) = 2"
  by (simp add: py_round_def)


section \<open>Facts about double precision\<close>

text \<open>
  Rounding to a double inside a known binade, the relative error of one rounding, and
  the error of dividing by a positive number and multiplying by it again.
\<close>

lemma double_round_binade:
  fixes k :: int
  assumes "2 powr of_int k \<le> x" and "x < 2 powr (of_int k + 1)"
  shows "double_round x = of_int (py_round (x / 2 powr (of_int k - 52))) * 2 powr (of_int k - 52)"
proof -
  have pos: "0 < x"
    using assms(1) by (smt (verit) powr_gt_zero)
  then have "\<lfloor>log 2 x\<rfloor> = k"
    using assms by (simp add: floor_log_eq_powr_iff)
  with pos show ?thesis
    by (simp add: double_round_def Let_def)
qed







lemma radians_90: "m_radians double_math 90 = 7074237752028440 / 2 ^ 52"
  using double_round_binade [of 0 "90 * (5030569068109113 / 2 ^ 58)"]
  by (simp add: double_math_def float_mul_def powr_minus_divide py_round_def)

section \<open>Facts about validation and step resolution\<close>

lemma validate_inputs_ok_iff:
  "validate_inputs height len width = [] \<longleftrightarrow>
     0 < height \<and> height \<le> 500 \<and> 0 < len \<and> len \<le> 1000 \<and> (\<forall>w. width = Some w \<longrightarrow> 80 \<le> w)"
  by (auto simp: validate_inputs_def Let_def min_ladder_width_def split: option.splits)

lemma calculate_steps_mode1:
  "calculate_steps height len None None = Inr res \<longleftrightarrow>
     py_round (height / 20) \<noteq> 0
     \<and> res = (Some (py_round (height / 20)), StepsStandard,
              Some (height / of_int (py_round (height / 20))), Some 30)"
  by (auto simp: py_div_def config_defs Let_def)

lemma calculate_steps_mode1_raises:
  "calculate_steps height len None None = Inl ZeroDivisionError \<longleftrightarrow> py_round (height / 20) = 0"
  by (auto simp: py_div_def config_defs Let_def)

section \<open>The orchestrator can raise\<close>


section \<open>The footprint grows with the step count\<close>

text \<open>
  Claim C8: for a fixed tread width above 0 and any layout type (1, 2, 3 or any other
  number), the horizontal projection computed by \<^verbatim>\<open>calculate_ladder_footprint\<close> does not
  decrease when the step count grows: for 0 < s1 <= s2 both calls return a footprint, and
  the projection at s1 is at most the projection at s2.
\<close>

theorem footprint_projection_mono:
  assumes "0 < s1" and "s1 \<le> s2" and "0 < w"
  shows "calculate_ladder_footprint s1 w t \<noteq> FootprintError
       \<and> calculate_ladder_footprint s2 w t \<noteq> FootprintError
       \<and> get_horizontal_projection (calculate_ladder_footprint s1 w t)
           \<le> get_horizontal_projection (calculate_ladder_footprint s2 w t)"
proof -
  have straight: "of_int (s1 - 1) * w \<le> of_int (s2 - 1) * w"
    using assms by (intro mult_right_mono) auto
  have "max 1 (s1 div 2) \<le> max 1 (s2 div 2)"
    using assms(2) zdiv_mono1 [of s1 s2 2] by auto
  then have ushaped: "of_int (max 1 (s1 div 2) - 1) * w \<le> of_int (max 1 (s2 div 2) - 1) * w"
    using assms(3) by (intro mult_right_mono) auto
  show ?thesis
    using assms straight ushaped
    by (auto simp: calculate_ladder_footprint_def Let_def intro!: round2_mono)
qed

theorem footprint_projection_mono_witness:
  "(0::int) < 4 \<and> (4::int) \<le> 14 \<and> (0::real) < 30
   \<and> calculate_ladder_footprint 4 30 2 \<noteq> FootprintError
   \<and> calculate_ladder_footprint 14 30 2 \<noteq> FootprintError
   \<and> get_horizontal_projection (calculate_ladder_footprint 4 30 2)
       \<le> get_horizontal_projection (calculate_ladder_footprint 14 30 2)"
  using footprint_projection_mono [of 4 14 30 2] by simp

section \<open>What a feasible report guarantees\<close>

lemma possible_add_issue [simp]: "\<not> possible (add_issue i f)"
  by (simp add: add_issue_def)

lemma issues_add_issue [simp]: "issues (add_issue i f) \<noteq> []"
  by (simp add: add_issue_def)

lemma add_warning_simps [simp]:
  "possible (add_warning w f) = possible f" "issues (add_warning w f) = issues f"
  by (simp_all add: add_warning_def)

lemma feasibility_checks_possible:
  assumes "possible (feasibility_checks len width angle steps sw sh hp f0)"
  shows "possible f0
       \<and> issues (feasibility_checks len width angle steps sw sh hp f0) = issues f0
       \<and> (\<exists>a. angle = Some a \<and> 30 \<le> a \<and> a \<le> 45)
       \<and> 15 \<le> sh \<and> sh \<le> 25 \<and> 25 \<le> sw \<and> 3 \<le> steps \<and> steps \<le> 25
       \<and> (\<forall>w. width = Some w \<longrightarrow> 80 \<le> w) \<and> hp \<le> len"
  using assms unfolding feasibility_checks_def Let_def config_defs
  by (auto split: option.splits if_splits)

text \<open>
  Claim C2: in the report returned by \<^verbatim>\<open>check_installation_feasibility\<close>, \<open>possible\<close> is
  false whenever \<open>issues\<close> is not empty, and \<open>possible\<close> is true only when no hard check
  is violated: the angle is known and within [30, 45], the riser height is within
  [15, 25], the tread width is at least 25, the step count is within [3, 25], the opening
  width is absent or at least 80, and the horizontal projection is at most the length.
\<close>

theorem feasibility_possible_sound:
  "(issues (check_installation_feasibility height len width angle steps step_width step_height hp) \<noteq> []
      \<longrightarrow> \<not> possible (check_installation_feasibility height len width angle steps step_width step_height hp))
   \<and> (possible (check_installation_feasibility height len width angle steps step_width step_height hp)
      \<longrightarrow> (\<exists>a. angle = Some a \<and> 30 \<le> a \<and> a \<le> 45)
        \<and> (\<exists>sh. step_height = Some sh \<and> 15 \<le> sh \<and> sh \<le> 25)
        \<and> (\<exists>sw. step_width = Some sw \<and> 25 \<le> sw)
        \<and> (\<exists>n. steps = Some n \<and> 3 \<le> n \<and> n \<le> 25)
        \<and> (\<forall>w. width = Some w \<longrightarrow> 80 \<le> w)
        \<and> hp \<le> len)"
proof -
  let ?f = "check_installation_feasibility height len width angle steps step_width step_height hp"
  have "issues ?f = [] \<and> (\<exists>a. angle = Some a \<and> 30 \<le> a \<and> a \<le> 45)
        \<and> (\<exists>sh. step_height = Some sh \<and> 15 \<le> sh \<and> sh \<le> 25)
        \<and> (\<exists>sw. step_width = Some sw \<and> 25 \<le> sw)
        \<and> (\<exists>n. steps = Some n \<and> 3 \<le> n \<and> n \<le> 25)
        \<and> (\<forall>w. width = Some w \<longrightarrow> 80 \<le> w)
        \<and> hp \<le> len" if p: "possible ?f"
  proof -
    from p obtain n sw sh where given: "steps = Some n" "step_width = Some sw" "step_height = Some sh"
      and run: "?f = feasibility_checks len width angle n sw sh hp \<lparr>possible = True, issues = [], warnings = []\<rparr>"
      by (auto simp: check_installation_feasibility_def Let_def split: option.splits if_splits)
    from p run feasibility_checks_possible [of len width angle n sw sh hp "\<lparr>possible = True, issues = [], warnings = []\<rparr>"]
    show ?thesis using given by simp
  qed
  then show ?thesis by blast
qed

theorem feasibility_possible_sound_witness:
  "possible (check_installation_feasibility 270 400 (Some 100) (Some 34) (Some 14) (Some 30) (Some (135 / 7)) 390)
   \<and> (30::real) \<le> 34 \<and> (34::real) \<le> 45 \<and> (15::real) \<le> 135 / 7 \<and> (135 / 7 :: real) \<le> 25
   \<and> (25::real) \<le> 30 \<and> (3::int) \<le> 14 \<and> (14::int) \<le> 25 \<and> (80::real) \<le> 100 \<and> (390::real) \<le> 400
   \<and> issues (check_installation_feasibility 300 150 None (Some 63) (Some 15) (Some 30) (Some 20) 420) \<noteq> []
   \<and> \<not> possible (check_installation_feasibility 300 150 None (Some 63) (Some 15) (Some 30) (Some 20) 420)"
  using feasibility_possible_sound [of 270 400 "Some 100" "Some 34" "Some 14" "Some 30" "Some (135 / 7)" 390]
        feasibility_possible_sound [of 300 150 None "Some 63" "Some 15" "Some 30" "Some 20" 420]
  by (simp add: check_installation_feasibility_def feasibility_checks_def add_issue_def
        add_warning_def config_defs Let_def)

section \<open>The step count of a resolution\<close>




section \<open>The step dimensions of a resolution\<close>

text \<open>
  Claim C5 as stated fails in mode 1: for height 12, accepted by validation, the
  resolution returns 1 step with riser 12, below the minimum of 15.
\<close>

theorem steps_spec_bounds_counterexample:
  "validate_inputs 12 100 None = []
   \<and> calculate_steps 12 100 None None = Inr (Some 1, StepsStandard, Some 12, Some 30)
   \<and> (12::real) < min_step_height"
  by (simp add: validate_inputs_def config_defs py_round_def py_div_def Let_def)

text \<open>
  Claim C5, amended: for inputs accepted by \<^verbatim>\<open>validate_inputs\<close>, a resolution that
  returns a step count returns a tread width of at least 25; in modes 2 to 4 its riser
  is within [15, 25]; in mode 1 the tread width is 30, the riser is height / count, and
  the riser is within [15, 25] exactly when the height is within [15, 25] or at least 30.
\<close>

theorem steps_spec_bounds:
  assumes "validate_inputs height len width = []"
      and "calculate_steps height len step_height step_width = Inr (Some n, msg, actual_height, actual_width)"
  shows "\<exists>r w. actual_height = Some r \<and> actual_width = Some w \<and> 25 \<le> w
           \<and> (step_height \<noteq> None \<or> step_width \<noteq> None \<longrightarrow> 15 \<le> r \<and> r \<le> 25)
           \<and> (step_height = None \<and> step_width = None \<longrightarrow>
                w = 30 \<and> r = height / of_int n
                \<and> ((15 \<le> r \<and> r \<le> 25) \<longleftrightarrow> (15 \<le> height \<and> height \<le> 25) \<or> 30 \<le> height))"
proof -
  have pos: "0 < height" using assms(1) by (simp add: validate_inputs_ok_iff)
  show ?thesis
  proof (cases step_height; cases step_width)
    assume m: "step_height = None" "step_width = None"
    with assms(2) have n0: "n \<noteq> 0" and n: "n = py_round (height / 20)"
      and res: "actual_height = Some (height / of_int n)" "actual_width = Some 30"
      by (simp_all add: calculate_steps_mode1 del: calculate_steps.simps)
    have "0 \<le> n" unfolding n using pos by (intro py_round_nonneg) simp
    with n0 have n1: "1 \<le> n" by linarith
    have lo: "height / 20 - 1 / 2 \<le> of_int n" and hi: "of_int n \<le> height / 20 + 1 / 2"
      unfolding n by (rule py_round_bounds)+
    have range: "(15 \<le> height / of_int n \<and> height / of_int n \<le> 25)
                  \<longleftrightarrow> (15 \<le> height \<and> height \<le> 25) \<or> 30 \<le> height"
    proof (cases "n = 1")
      case True
      have "height < 30"
      proof (rule ccontr)
        assume "\<not> height < 30"
        then have "py_round (3 / 2) \<le> py_round (height / 20)" by (intro py_round_mono) simp
        with n True show False by (simp add: py_round_three_halves)
      qed
      with True show ?thesis by simp
    next
      case False
      with n1 have n2: "2 \<le> n" by linarith
      then have rn: "(2::real) \<le> of_int n" by linarith
      have npos: "(0::real) < of_int n" using rn by linarith
      have "30 \<le> height" using lo hi rn by linarith
      moreover have "15 * of_int n \<le> height" using lo hi rn by linarith
      moreover have "height \<le> 25 * of_int n" using lo hi rn by linarith
      ultimately show ?thesis using npos by (simp add: pos_le_divide_eq pos_divide_le_eq)
    qed
    show ?thesis using m res range by simp
  next
    fix sw assume m: "step_height = None" "step_width = Some sw"
    with assms(2) show ?thesis
      by (auto simp: config_defs Let_def split: if_splits)
  next
    fix sh assume m: "step_height = Some sh" "step_width = None"
    with assms(2) show ?thesis
      by (auto simp: config_defs Let_def split: if_splits)
  next
    fix sh sw assume m: "step_height = Some sh" "step_width = Some sw"
    with assms(2) show ?thesis
      by (auto simp: config_defs Let_def split: if_splits)
  qed
qed

theorem steps_spec_bounds_witness:
  "validate_inputs 270 400 (Some 100) = []
   \<and> calculate_steps 270 400 None None = Inr (Some 14, StepsStandard, Some (270 / 14), Some 30)
   \<and> (15::real) \<le> 270 / 14 \<and> (270 / 14 :: real) \<le> 25 \<and> (30::real) \<le> 270
   \<and> calculate_steps 270 400 (Some 18) (Some 28) = Inr (Some 15, StepsBothGiven, Some 18, Some 28)
   \<and> (25::real) \<le> 28 \<and> (15::real) \<le> 18 \<and> (18::real) \<le> 25"
  using steps_spec_bounds [of 270 400 "Some 100" None None 14 StepsStandard "Some (270 / 14)" "Some 30"]
        steps_spec_bounds [of 270 400 "Some 100" "Some 18" "Some 28" 15 StepsBothGiven "Some 18" "Some 28"]
  by (simp add: validate_inputs_def config_defs py_round_def py_div_def Let_def)

section \<open>The suggestion search\<close>

text \<open>
  The loop over \<^verbatim>\<open>range(3, 26)\<close> keeps the largest count seen so far that passes both
  tests, together with its parameters.
\<close>

lemma search_fold:
  assumes "fold (search_step height L) xs (m, b) = (m', b')"
  shows "m \<le> m'
       \<and> (\<forall>c\<in>set xs. 15 \<le> height / of_int c \<and> height / of_int c \<le> 25
              \<and> of_int (c - 1) * 30 \<le> L \<longrightarrow> c \<le> m')
       \<and> ((m' = m \<and> b' = b)
          \<or> (m < m' \<and> m' \<in> set xs \<and> 15 \<le> height / of_int m' \<and> height / of_int m' \<le> 25
              \<and> of_int (m' - 1) * 30 \<le> L
              \<and> b' = Some \<lparr> opt_steps = m', opt_height = round2 (height / of_int m'),
                             opt_width = 30, opt_projection = round2 (of_int (m' - 1) * 30) \<rparr>))"
  using assms
proof (induction xs arbitrary: m b)
  case Nil
  then show ?case by simp
next
  case (Cons x xs)
  obtain m1 b1 where step: "search_step height L x (m, b) = (m1, b1)"
    by (cases "search_step height L x (m, b)")
  with Cons.prems have rest: "fold (search_step height L) xs (m1, b1) = (m', b')"
    by simp
  note ih = Cons.IH [OF rest]
  from step show ?case
    using ih by (auto simp: search_step_def Let_def config_defs split: if_splits)
qed

lemma search_range:
  assumes "search_best height L = (m', b')"
  shows "(b' = None \<longleftrightarrow> (\<forall>c. \<not> spec_candidate height L c))
       \<and> (b' \<noteq> None \<longrightarrow>
            spec_candidate height L m' \<and> (\<forall>c. spec_candidate height L c \<longrightarrow> c \<le> m')
            \<and> b' = Some \<lparr> opt_steps = m', opt_height = round2 (height / of_int m'),
                           opt_width = 30, opt_projection = round2 (of_int (m' - 1) * 30) \<rparr>)"
proof -
  have run: "fold (search_step height L) [3..25] (0, None) = (m', b')"
    using assms by (simp only: search_best_def)
  have mem: "c \<in> set [3..25] \<longleftrightarrow> 3 \<le> c \<and> c \<le> 25" for c :: int
    by (simp only: set_upto atLeastAtMost_iff)
  from search_fold [OF run] show ?thesis
    unfolding spec_candidate_def Ball_def mem by auto
qed

lemma suggest_result:
  assumes "suggest_optimal_parameters height L w = Inr s"
      and "search_best height L = (m', b')"
  shows "py_round (height / 20) \<noteq> 0"
    and "standard_option s \<noteq> None \<longrightarrow>
           (\<exists>so. standard_option s = Some so \<and> opt_steps so = py_round (height / 20))"
    and "best_option s =
           (if b' \<noteq> None \<and> (m' \<noteq> py_round (height / 20) \<or> standard_option s = None)
            then b' else None)"
    and "minimum_option s =
           (if standard_option s = None \<and> best_option s = None
            then Some \<lparr> opt_steps = max 3 (py_round (height / 25)),
                        opt_height = round2 (height / of_int (max 3 (py_round (height / 25)))),
                        opt_width = 30,
                        opt_projection = round2 (of_int (max 3 (py_round (height / 25)) - 1) * 30) \<rparr>
            else None)"
  using assms
  by (auto simp: suggest_optimal_parameters_def Let_def py_div_def config_defs split: if_splits)


text \<open>Two runs of \<^verbatim>\<open>suggest_optimal_parameters\<close> on concrete openings.\<close>

lemma suggest_60_100:
  "suggest_optimal_parameters 60 100 None =
     Inr \<lparr> sg_message = SuggestStandardFound,
           standard_option = Some \<lparr>opt_steps = 3, opt_height = 20, opt_width = 30, opt_projection = 60\<rparr>,
           best_option = Some \<lparr>opt_steps = 4, opt_height = 15, opt_width = 30, opt_projection = 90\<rparr>,
           minimum_option = None \<rparr>"
  by (simp add: suggest_optimal_parameters_def search_best_def search_step_def Let_def py_div_def
        config_defs py_round_def round2_def)

lemma suggest_300_150:
  "suggest_optimal_parameters 300 150 None =
     Inr \<lparr> sg_message = SuggestMinimum, standard_option = None, best_option = None,
           minimum_option = Some \<lparr>opt_steps = 12, opt_height = 25, opt_width = 30, opt_projection = 330\<rparr> \<rparr>"
  by (simp add: suggest_optimal_parameters_def search_best_def search_step_def Let_def py_div_def
        config_defs py_round_def round2_def)



text \<open>
  Whenever \<^verbatim>\<open>suggest_optimal_parameters\<close> returns, the set never holds both a best option
  and a minimum option; the minimum option is emitted exactly when neither a standard
  option nor a best option is in the set, which is exactly when no standard option is in
  the set and the search has no candidate; its step count is max(3, round(height / 25))
  and its tread width is 30.
\<close>

lemma minimum_option_exclusive:
  assumes "suggest_optimal_parameters height available_length available_width = Inr s"
  shows "\<not> (best_option s \<noteq> None \<and> minimum_option s \<noteq> None)
       \<and> (minimum_option s \<noteq> None \<longleftrightarrow> standard_option s = None \<and> best_option s = None)
       \<and> (minimum_option s \<noteq> None \<longleftrightarrow>
            standard_option s = None \<and> (\<forall>c. \<not> spec_candidate height available_length c))
       \<and> (\<forall>m. minimum_option s = Some m \<longrightarrow>
            opt_steps m = max 3 (py_round (height / 25)) \<and> opt_width m = 30)"
proof -
  obtain m' b' where run: "search_best height available_length = (m', b')"
    by (cases "search_best height available_length")
  note range = search_range [OF run]
  note res = suggest_result [OF assms run]
  from res(3,4) range show ?thesis by (auto split: if_splits)
qed

lemma minimum_option_exclusive_runs:
  "(\<exists>s. suggest_optimal_parameters 300 150 None = Inr s
        \<and> minimum_option s \<noteq> None \<and> standard_option s = None \<and> best_option s = None
        \<and> (\<forall>c. \<not> spec_candidate 300 150 c)
        \<and> opt_steps (the (minimum_option s)) = max 3 (py_round (300 / 25)))
   \<and> (\<exists>s. suggest_optimal_parameters 60 100 None = Inr s
        \<and> best_option s \<noteq> None \<and> minimum_option s = None)"
  using minimum_option_exclusive [OF suggest_300_150] minimum_option_exclusive [OF suggest_60_100]
    suggest_300_150 suggest_60_100
  by simp



section \<open>The orchestrator's result\<close>















section \<open>The stringer length and the cosine\<close>

text \<open>
  With an angle, \<^verbatim>\<open>calculate_length\<close> reports an error exactly when the library's cosine
  of the converted angle is 0, the only way its division can raise. Over the real numbers
  this happens at 90 degrees.
\<close>

lemma calculate_length_fails_iff:
  "calculate_length M height len (Some a) = (None, LengthBadAngle)
     \<longleftrightarrow> m_cos M (m_radians M a) = 0"
  by (simp add: calculate_length_def py_div_def)

lemma calculate_length_exact_90:
  "calculate_length exact_math height len (Some 90) = (None, LengthBadAngle)"
  by (simp add: calculate_length_def py_div_def exact_math_def)

text \<open>
  Claim C9 says that the stringer-length calculation fails at an angle of 90 degrees
  instead of returning a numeric length. Whenever the library's cosine of the converted
  angle is not 0, the division inside the \<^verbatim>\<open>try\<close> block does not raise and the function
  returns a number with the message of the successful computation. In double precision
  that is the case: \<^verbatim>\<open>math.radians(90)\<close> is the double nearest to pi / 2 and \<^verbatim>\<open>math.cos\<close> of
  it is about 6.1e-17, so the function returns a length of about 1.6e18 for a length of
  100.
\<close>

theorem calculate_length_numeric_at_90:
  assumes "m_cos M (m_radians M 90) \<noteq> 0"
  shows "calculate_length M height len (Some 90) =
           (Some (round2 (len / m_cos M (m_radians M 90))), LengthByAngle)"
  using assms by (simp add: calculate_length_def py_div_def)

theorem calculate_length_numeric_at_90_witness:
  "m_cos double_math (m_radians double_math 90) \<noteq> 0
   \<and> calculate_length double_math 300 100 (Some 90) =
       (Some (round2 (100 / (4967757600021511 / 2 ^ 106))), LengthByAngle)"
proof -
  have c: "m_cos double_math (m_radians double_math 90) = 4967757600021511 / 2 ^ 106"
    by (simp add: radians_90) (simp add: double_math_def)
  then have nz: "m_cos double_math (m_radians double_math 90) \<noteq> 0"
    by simp
  from calculate_length_numeric_at_90 [OF nz, of 300 100] c nz show ?thesis
    by simp
qed

end
